theory Spec2Isabelle
  imports Complex_Main "HOL-Library.AList"
begin

section \<open>Traffic control system: data model\<close>

text \<open>
  The development embeds the control core of
  \<^verbatim>\<open>Software for Traffic Control System.py\<close>: the adaptive traffic light
  (\<^verbatim>\<open>AdvancedTrafficLight\<close>), the sensor monitor
  (\<^verbatim>\<open>TrafficMonitoringSystem\<close>) and the emergency registry
  (\<^verbatim>\<open>EmergencyManagementSystem\<close>).

  Numbers. Python's \<^verbatim>\<open>int\<close> is \<open>int\<close>. Python's \<^verbatim>\<open>float\<close> is
  modelled by \<open>real\<close> with exact arithmetic: the rounding of IEEE doubles is not
  represented. The bounds proved below rest on \<^verbatim>\<open>max\<close> and \<^verbatim>\<open>min\<close>
  alone, which are exact on doubles. The concrete green times (17.0, 30.0, 10.0) and
  the priority 30 are values that the doubles reach exactly, and on all 60 combinations
  of level, vehicle kind and weather the truncated product of the priority score is the
  same in doubles and in exact arithmetic.

  Objects. A method that mutates \<^verbatim>\<open>self\<close> takes the object and returns the
  updated one next to its result. A \<^verbatim>\<open>datetime\<close> is an integer time stamp.
\<close>

datatype TrafficLightState = RED | YELLOW | GREEN | PRE_GREEN | FLASHING_RED | FLASHING_YELLOW

datatype VehicleType = CAR | JEEP | TRUCK | BUS | MOTORCYCLE | EMERGENCY | PEDESTRIAN

datatype EmergencyLevel = NONE | LOW | MEDIUM | HIGH | CRITICAL

datatype WeatherCondition = CLEAR | RAIN | SNOW | FOG | STORM | NIGHT

datatype Direction = NORTH | SOUTH | EAST | WEST | UNKNOWN

record Vehicle =
  vehicle_id :: string
  vehicle_type :: VehicleType
  speed :: real
  vehicle_position :: "real \<times> real"
  destination :: "real \<times> real"
  priority :: int
  emergency_level :: EmergencyLevel
  direction :: Direction
  timestamp :: int

record TrafficSensor =
  sensor_id :: string
  sensor_position :: "real \<times> real"
  vehicle_count :: int
  average_speed :: real
  queue_length :: int
  last_update :: int
  is_active :: bool

record IntersectionConfig =
  config_id :: string
  config_position :: "real \<times> real"
  roads :: "string list"
  default_green_time :: real
  default_yellow_time :: real
  default_pre_green_time :: real
  default_red_time :: real
  max_green_time :: real
  min_green_time :: real
  pedestrian_crossing_time :: real
  emergency_override :: bool

text \<open>The field defaults of the \<^verbatim>\<open>IntersectionConfig\<close> dataclass, for a given id.\<close>

definition IntersectionConfig_default :: "string \<Rightarrow> IntersectionConfig" where
  "IntersectionConfig_default i =
     \<lparr>config_id = i, config_position = (0, 0), roads = [],
      default_green_time = 30, default_yellow_time = 5, default_pre_green_time = 1.5,
      default_red_time = 30, max_green_time = 60, min_green_time = 10,
      pedestrian_crossing_time = 20, emergency_override = True\<rparr>"

text \<open>The field defaults of the \<^verbatim>\<open>TrafficSensor\<close> dataclass, for a given id.\<close>

definition TrafficSensor_default :: "string \<Rightarrow> TrafficSensor" where
  "TrafficSensor_default i =
     \<lparr>sensor_id = i, sensor_position = (0, 0), vehicle_count = 0, average_speed = 0,
      queue_length = 0, last_update = 0, is_active = True\<rparr>"

text \<open>The field defaults of the \<^verbatim>\<open>Vehicle\<close> dataclass, for a given id.\<close>

definition Vehicle_default :: "string \<Rightarrow> Vehicle" where
  "Vehicle_default i =
     \<lparr>vehicle_id = i, vehicle_type = CAR, speed = 0, vehicle_position = (0, 0),
      destination = (0, 0), priority = 0, emergency_level = NONE, direction = UNKNOWN,
      timestamp = 0\<rparr>"

section \<open>AdvancedTrafficLight\<close>

text \<open>The dictionary returned by \<^verbatim>\<open>calculate_optimal_timing\<close>, with its four keys.\<close>

record Timing =
  green :: real
  yellow :: real
  pre_green :: real
  red :: real

record AdvancedTrafficLight =
  intersection_id :: string
  config :: IntersectionConfig
  current_state :: TrafficLightState
  state_start_time :: int
  green_time_elapsed :: real
  cycle_count :: int
  emergency_active :: bool
  last_state_change :: int
  traffic_patterns :: "(string \<times> real) list"
  adaptation_factor :: real

text \<open>\<^verbatim>\<open>AdvancedTrafficLight.__init__\<close>\<close>

definition AdvancedTrafficLight_init :: "string \<Rightarrow> IntersectionConfig \<Rightarrow> AdvancedTrafficLight" where
  "AdvancedTrafficLight_init iid cfg =
     \<lparr>intersection_id = iid, config = cfg, current_state = RED, state_start_time = 0,
      green_time_elapsed = 0, cycle_count = 0, emergency_active = False,
      last_state_change = 0, traffic_patterns = [], adaptation_factor = 1\<rparr>"

definition get_current_state_duration :: "AdvancedTrafficLight \<Rightarrow> int \<Rightarrow> int" where
  "get_current_state_duration self current_step = current_step - state_start_time self"

definition change_state ::
  "AdvancedTrafficLight \<Rightarrow> TrafficLightState \<Rightarrow> int \<Rightarrow> AdvancedTrafficLight" where
  "change_state self new_state current_step =
     (let self1 = self\<lparr>current_state := new_state, state_start_time := current_step,
                        last_state_change := current_step\<rparr>
      in if current_state self1 = GREEN
         then self1\<lparr>green_time_elapsed := 0, cycle_count := cycle_count self1 + 1\<rparr>
         else self1)"

text \<open>
  The mean vehicle count of a non-empty sensor list,
  \<^verbatim>\<open>sum(sensor.vehicle_count for sensor in sensor_data) / len(sensor_data)\<close>.
\<close>

definition avg_vehicle_count :: "TrafficSensor list \<Rightarrow> real" where
  "avg_vehicle_count sensor_data =
     real_of_int (sum_list (map vehicle_count sensor_data)) / real (length sensor_data)"

text \<open>
  \<^verbatim>\<open>calculate_optimal_timing\<close>. The statements of the source are kept in their
  order: the emergency assignment comes first, the density block (entered when the sensor
  list is non-empty) assigns \<^verbatim>\<open>timing['green']\<close> afresh, the bounds come last.
  The method also sets \<^verbatim>\<open>self.emergency_active\<close>.
\<close>

definition calculate_optimal_timing ::
  "AdvancedTrafficLight \<Rightarrow> TrafficSensor list \<Rightarrow> WeatherCondition \<Rightarrow> EmergencyLevel
     \<Rightarrow> bool \<Rightarrow> bool \<Rightarrow> Timing \<times> AdvancedTrafficLight" where
  "calculate_optimal_timing self sensor_data weather level is_rush_hour is_night =
     (let cfg = config self;
          timing0 = \<lparr>green = default_green_time cfg, yellow = default_yellow_time cfg,
                     pre_green = default_pre_green_time cfg, red = default_red_time cfg\<rparr>;
          timing1 = (if level \<noteq> NONE then timing0\<lparr>green := min_green_time cfg\<rparr> else timing0);
          self1 = self\<lparr>emergency_active := (level \<noteq> NONE)\<rparr>;
          timing2 =
            (if sensor_data \<noteq> [] then
               let g1 = 3.0 + avg_vehicle_count sensor_data * 3.5;
                   g2 = (if weather \<in> set [RAIN, SNOW, STORM] then g1 + 4.0 else g1);
                   g3 = (if is_rush_hour then g2 * 1.2 else g2);
                   g4 = (if is_night then g3 * 0.8 else g3)
               in timing1\<lparr>green := g4\<rparr>
             else timing1)
      in (timing2\<lparr>green := max (min_green_time cfg) (min (max_green_time cfg) (green timing2))\<rparr>,
          self1))"

text \<open>\<^verbatim>\<open>_update_adaptation_factor\<close>\<close>

definition avg_queue_length :: "TrafficSensor list \<Rightarrow> real" where
  "avg_queue_length sensor_data =
     real_of_int (sum_list (map queue_length sensor_data)) / real (length sensor_data)"

definition update_adaptation_factor ::
  "AdvancedTrafficLight \<Rightarrow> TrafficSensor list \<Rightarrow> AdvancedTrafficLight" where
  "update_adaptation_factor self sensor_data =
     (if sensor_data = [] then self
      else if avg_queue_length sensor_data > 5
        then self\<lparr>adaptation_factor := min 2.0 (adaptation_factor self + 0.01)\<rparr>
      else if avg_queue_length sensor_data < 2
        then self\<lparr>adaptation_factor := max 0.5 (adaptation_factor self - 0.01)\<rparr>
      else self)"

text \<open>
  \<^verbatim>\<open>update_state\<close>. The three scenario branches return early; the normal cycle
  computes the timing, advances the state machine and ends with the adaptation factor.
\<close>

definition update_state ::
  "AdvancedTrafficLight \<Rightarrow> int \<Rightarrow> TrafficSensor list \<Rightarrow> WeatherCondition \<Rightarrow> EmergencyLevel
     \<Rightarrow> bool \<Rightarrow> bool \<Rightarrow> bool \<Rightarrow> AdvancedTrafficLight" where
  "update_state self current_step sensor_data weather level power_outage is_scramble is_rush_hour =
     (if power_outage then
        (if current_step mod 2 = 0 then self\<lparr>current_state := FLASHING_YELLOW\<rparr>
         else self\<lparr>current_state := RED\<rparr>)
      else if is_scramble then
        self\<lparr>current_state := RED, state_start_time := current_step\<rparr>
      else if level \<noteq> NONE then
        (if current_state self \<noteq> GREEN then change_state self GREEN current_step else self)
      else
        (let (timing, self1) =
               calculate_optimal_timing self sensor_data weather level is_rush_hour (weather = NIGHT);
             current_duration = get_current_state_duration self1 current_step;
             self2 =
               (if current_state self1 = RED then
                  (if real_of_int current_duration \<ge> red timing
                   then change_state self1 PRE_GREEN current_step else self1)
                else if current_state self1 = PRE_GREEN then
                  (if real_of_int current_duration \<ge> pre_green timing
                   then change_state self1 GREEN current_step else self1)
                else if current_state self1 = GREEN then
                  (let self1a = self1\<lparr>green_time_elapsed := real_of_int current_duration\<rparr>
                   in if real_of_int current_duration \<ge> green timing
                      then change_state self1a YELLOW current_step else self1a)
                else if current_state self1 = YELLOW \<or> current_state self1 = FLASHING_YELLOW then
                  (if real_of_int current_duration \<ge> yellow timing
                   then change_state self1 RED current_step else self1)
                else self1)
         in update_adaptation_factor self2 sensor_data))"

section \<open>TrafficMonitoringSystem\<close>

text \<open>
  An entry of the \<^verbatim>\<open>anomalies\<close> list, with the five keys of the source's
  dictionary, and the dictionary \<^verbatim>\<open>processed_data\<close> that
  \<^verbatim>\<open>process_sensor_data\<close> returns.
\<close>

record Anomaly =
  anomaly_sensor_id :: string
  anomaly_type :: string
  anomaly_value :: int
  expected_range :: "real \<times> real"
  anomaly_timestamp :: int

record ProcessedData =
  total_vehicles :: int
  pd_average_speed :: real
  congestion_level :: real
  anomalies :: "Anomaly list"
  predictions :: "(string \<times> real) list"

text \<open>
  \<^verbatim>\<open>sensor_data_history\<close> is a dictionary from sensor id to the list of stored
  readings. The source stores references to the sensor objects; a stored reading is
  modelled by the field values the object has when the monitor reads it.
\<close>

record TrafficMonitoringSystem =
  sensor_data_history :: "string \<rightharpoonup> TrafficSensor list"
  anomaly_threshold :: real

definition TrafficMonitoringSystem_init :: TrafficMonitoringSystem where
  "TrafficMonitoringSystem_init = \<lparr>sensor_data_history = Map.empty, anomaly_threshold = 2.0\<rparr>"

text \<open>The slice \<^verbatim>\<open>xs[-n:]\<close> for a positive \<open>n\<close>: the last \<open>n\<close> elements, all of a shorter list.\<close>

definition last_n :: "nat \<Rightarrow> 'a list \<Rightarrow> 'a list" where
  "last_n n xs = drop (length xs - n) xs"

text \<open>
  \<^verbatim>\<open>statistics.mean\<close> and \<^verbatim>\<open>statistics.stdev\<close> (the sample standard
  deviation) of a list of integers. The library raises \<^verbatim>\<open>StatisticsError\<close> on an
  empty list and on fewer than two points respectively; the source calls them only under
  the guards \<^verbatim>\<open>if vehicle_counts\<close> and \<^verbatim>\<open>len(vehicle_counts) > 1\<close>, which the
  model keeps.
\<close>

definition statistics_mean :: "int list \<Rightarrow> real" where
  "statistics_mean xs = real_of_int (sum_list xs) / real (length xs)"

definition statistics_stdev :: "int list \<Rightarrow> real" where
  "statistics_stdev xs =
     sqrt (sum_list (map (\<lambda>x. (real_of_int x - statistics_mean xs)\<^sup>2) xs) / real (length xs - 1))"

text \<open>The stored readings of a sensor id, after \<^verbatim>\<open>_detect_anomalies\<close> has made sure the key exists.\<close>

definition history_of :: "TrafficMonitoringSystem \<Rightarrow> string \<Rightarrow> TrafficSensor list" where
  "history_of self i = (case sensor_data_history self i of None \<Rightarrow> [] | Some h \<Rightarrow> h)"

text \<open>The body of the loop of \<^verbatim>\<open>_detect_anomalies\<close> below the history lookup.\<close>

definition detect_one :: "real \<Rightarrow> TrafficSensor list \<Rightarrow> TrafficSensor \<Rightarrow> Anomaly list" where
  "detect_one threshold history sensor =
     (if length history < 5 then []
      else
        let vehicle_counts = map vehicle_count (last_n 10 history) in
        if vehicle_counts \<noteq> [] then
          let mean_count = statistics_mean vehicle_counts in
          if length vehicle_counts > 1 then
            let stdev_count = statistics_stdev vehicle_counts in
            if stdev_count > 0 then
              let z_score = \<bar>real_of_int (vehicle_count sensor) - mean_count\<bar> / stdev_count in
              if z_score > threshold then
                [\<lparr>anomaly_sensor_id = sensor_id sensor, anomaly_type = ''vehicle_count'',
                  anomaly_value = vehicle_count sensor,
                  expected_range = (mean_count - 2 * stdev_count, mean_count + 2 * stdev_count),
                  anomaly_timestamp = last_update sensor\<rparr>]
              else []
            else []
          else []
        else [])"

text \<open>\<^verbatim>\<open>_detect_anomalies\<close>: a missing key is created with an empty history.\<close>

fun detect_anomalies ::
  "TrafficMonitoringSystem \<Rightarrow> TrafficSensor list \<Rightarrow> Anomaly list \<times> TrafficMonitoringSystem" where
  "detect_anomalies self [] = ([], self)"
| "detect_anomalies self (sensor # rest) =
     (let self1 =
            (if sensor_id sensor \<notin> dom (sensor_data_history self)
             then self\<lparr>sensor_data_history := (sensor_data_history self)(sensor_id sensor \<mapsto> [])\<rparr>
             else self);
          history = history_of self1 (sensor_id sensor);
          found = detect_one (anomaly_threshold self1) history sensor;
          (more_found, self2) = detect_anomalies self1 rest
      in (found @ more_found, self2))"

text \<open>\<^verbatim>\<open>_update_history\<close>\<close>

fun update_history :: "TrafficMonitoringSystem \<Rightarrow> TrafficSensor list \<Rightarrow> TrafficMonitoringSystem" where
  "update_history self [] = self"
| "update_history self (sensor # rest) =
     (let self1 =
            (if sensor_id sensor \<notin> dom (sensor_data_history self)
             then self\<lparr>sensor_data_history := (sensor_data_history self)(sensor_id sensor \<mapsto> [])\<rparr>
             else self);
          appended = history_of self1 (sensor_id sensor) @ [sensor];
          kept = (if length appended > 100 then last_n 100 appended else appended)
      in update_history
           (self1\<lparr>sensor_data_history := (sensor_data_history self1)(sensor_id sensor \<mapsto> kept)\<rparr>)
           rest)"

text \<open>\<^verbatim>\<open>process_sensor_data\<close>\<close>

definition process_sensor_data ::
  "TrafficMonitoringSystem \<Rightarrow> TrafficSensor list \<Rightarrow> ProcessedData \<times> TrafficMonitoringSystem" where
  "process_sensor_data self sensors =
     (let processed_data = \<lparr>total_vehicles = 0, pd_average_speed = 0.0, congestion_level = 0.0,
                             anomalies = [], predictions = []\<rparr>
      in if sensors = [] then (processed_data, self)
         else
           let total = sum_list (map vehicle_count sensors);
               active_sensors = filter is_active sensors;
               processed_data1 =
                 (if active_sensors \<noteq> [] then
                    let avg_speed = sum_list (map average_speed active_sensors)
                                      / real (length active_sensors);
                        avg_queue = real_of_int (sum_list (map queue_length active_sensors))
                                      / real (length active_sensors)
                    in processed_data\<lparr>total_vehicles := total, pd_average_speed := avg_speed,
                                       congestion_level := min 1.0 (avg_queue / 10.0)\<rparr>
                  else processed_data);
               (found, self1) = detect_anomalies self sensors;
               processed_data2 = processed_data1\<lparr>anomalies := found\<rparr>;
               self2 = update_history self1 sensors
           in (processed_data2, self2))"

section \<open>EmergencyManagementSystem\<close>

text \<open>
  The dictionaries of the registry keep their insertion order (the order in which
  \<^verbatim>\<open>values()\<close> iterates), so they are association lists: a store replaces the value
  of a key in place or appends a new pair, \<^verbatim>\<open>del\<close> removes the pair.
\<close>

record EmergencyManagementSystem =
  active_emergencies :: "(string \<times> Vehicle) list"
  priority_routes :: "(string \<times> string list) list"
  weather_impact_factors :: "(WeatherCondition \<times> real) list"

definition EmergencyManagementSystem_init :: EmergencyManagementSystem where
  "EmergencyManagementSystem_init =
     \<lparr>active_emergencies = [], priority_routes = [],
      weather_impact_factors = [(CLEAR, 1.0), (RAIN, 1.2), (SNOW, 1.5), (FOG, 1.8), (STORM, 2.5)]\<rparr>"

text \<open>\<^verbatim>\<open>d.get(k, default)\<close>\<close>

definition dict_get :: "('k \<times> 'v) list \<Rightarrow> 'k \<Rightarrow> 'v \<Rightarrow> 'v" where
  "dict_get d k dflt = (case map_of d k of None \<Rightarrow> dflt | Some v \<Rightarrow> v)"

text \<open>\<^verbatim>\<open>int(x)\<close> of a float: truncation towards zero.\<close>

definition py_int :: "real \<Rightarrow> int" where
  "py_int x = (if x \<ge> 0 then \<lfloor>x\<rfloor> else \<lceil>x\<rceil>)"

definition register_emergency_vehicle ::
  "EmergencyManagementSystem \<Rightarrow> Vehicle \<Rightarrow> bool \<times> EmergencyManagementSystem" where
  "register_emergency_vehicle self vehicle =
     (if emergency_level vehicle \<noteq> NONE
      then (True, self\<lparr>active_emergencies :=
                          AList.update (vehicle_id vehicle) vehicle (active_emergencies self)\<rparr>)
      else (False, self))"

definition unregister_emergency_vehicle ::
  "EmergencyManagementSystem \<Rightarrow> string \<Rightarrow> bool \<times> EmergencyManagementSystem" where
  "unregister_emergency_vehicle self vid =
     (if vid \<in> fst ` set (active_emergencies self)
      then (True, self\<lparr>active_emergencies := AList.delete vid (active_emergencies self)\<rparr>)
      else (False, self))"

definition priority_map :: "(EmergencyLevel \<times> int) list" where
  "priority_map = [(NONE, 0), (LOW, 1), (MEDIUM, 3), (HIGH, 7), (CRITICAL, 10)]"

definition calculate_priority ::
  "EmergencyManagementSystem \<Rightarrow> Vehicle \<Rightarrow> WeatherCondition \<Rightarrow> int" where
  "calculate_priority self vehicle weather =
     (let base_priority = dict_get priority_map (emergency_level vehicle) 0;
          weather_factor = dict_get (weather_impact_factors self) weather 1.0;
          base_priority1 = (if vehicle_type vehicle = EMERGENCY then base_priority + 5
                            else base_priority)
      in py_int (real_of_int base_priority1 * weather_factor))"

text \<open>
  The priority score in the words of the specification: a case table for the base of a
  level, a case table for the factor of a weather condition.
\<close>

fun spec_base :: "EmergencyLevel \<Rightarrow> int" where
  "spec_base NONE = 0"
| "spec_base LOW = 1"
| "spec_base MEDIUM = 3"
| "spec_base HIGH = 7"
| "spec_base CRITICAL = 10"

fun spec_weatherFactor :: "WeatherCondition \<Rightarrow> real" where
  "spec_weatherFactor CLEAR = 1.0"
| "spec_weatherFactor RAIN = 1.2"
| "spec_weatherFactor SNOW = 1.5"
| "spec_weatherFactor FOG = 1.8"
| "spec_weatherFactor STORM = 2.5"
| "spec_weatherFactor NIGHT = 1.0"

definition spec_priority :: "Vehicle \<Rightarrow> WeatherCondition \<Rightarrow> int" where
  "spec_priority vehicle weather =
     py_int (real_of_int (spec_base (emergency_level vehicle)
                          + (if vehicle_type vehicle = EMERGENCY then 5 else 0))
             * spec_weatherFactor weather)"

section \<open>Runs\<close>

text \<open>
  The arguments of one call of \<^verbatim>\<open>update_state\<close>: step, sensor list, weather,
  emergency level, power outage, scramble, rush hour. A run applies a list of calls to
  one traffic light, as \<^verbatim>\<open>process_step\<close> does tick after tick.
\<close>

type_synonym update_args =
  "int \<times> TrafficSensor list \<times> WeatherCondition \<times> EmergencyLevel \<times> bool \<times> bool \<times> bool"

fun run_updates :: "AdvancedTrafficLight \<Rightarrow> update_args list \<Rightarrow> AdvancedTrafficLight" where
  "run_updates self [] = self"
| "run_updates self ((current_step, sensor_data, weather, level, outage, scramble, rush) # rest) =
     run_updates (update_state self current_step sensor_data weather level outage scramble rush) rest"

text \<open>A run of the monitor: one call of \<^verbatim>\<open>process_sensor_data\<close> per tick.\<close>

fun run_monitor :: "TrafficMonitoringSystem \<Rightarrow> TrafficSensor list list \<Rightarrow> TrafficMonitoringSystem" where
  "run_monitor self [] = self"
| "run_monitor self (sensors # rest) = run_monitor (snd (process_sensor_data self sensors)) rest"

section \<open>Properties of the traffic light\<close>

subsection \<open>Facts shared by the proofs\<close>

lemma change_state_adaptation_factor:
  "adaptation_factor (change_state self st n) = adaptation_factor self"
  by (simp add: change_state_def Let_def)

lemma calculate_optimal_timing_self:
  "snd (calculate_optimal_timing self ss w e r n) = self\<lparr>emergency_active := (e \<noteq> NONE)\<rparr>"
  by (simp add: calculate_optimal_timing_def Let_def)

lemma calculate_optimal_timing_green_empty:
  "green (fst (calculate_optimal_timing self [] w e r n)) =
     max (min_green_time (config self))
       (min (max_green_time (config self))
          (if e \<noteq> NONE then min_green_time (config self) else default_green_time (config self)))"
  by (simp add: calculate_optimal_timing_def Let_def)

lemma update_adaptation_factor_value:
  "adaptation_factor (update_adaptation_factor self ss) =
     (if ss = [] then adaptation_factor self
      else if avg_queue_length ss > 5 then min 2.0 (adaptation_factor self + 0.01)
      else if avg_queue_length ss < 2 then max 0.5 (adaptation_factor self - 0.01)
      else adaptation_factor self)"
  by (simp add: update_adaptation_factor_def)

lemma update_state_normal_adaptation_factor:
  "adaptation_factor (update_state self step ss w NONE False False rush) =
     adaptation_factor (update_adaptation_factor self ss)"
  by (simp add: update_state_def Let_def split_def calculate_optimal_timing_self
      update_adaptation_factor_value change_state_adaptation_factor)

lemma update_state_adaptation_factor_cases:
  "adaptation_factor (update_state self step ss w e outage scr rush) = adaptation_factor self \<or>
   adaptation_factor (update_state self step ss w e outage scr rush) =
     adaptation_factor (update_adaptation_factor self ss)"
proof (cases "\<not> outage \<and> \<not> scr \<and> e = NONE")
  case True
  then show ?thesis using update_state_normal_adaptation_factor by simp
next
  case False
  then show ?thesis
    by (auto simp add: update_state_def change_state_adaptation_factor)
qed

lemma update_adaptation_factor_bounds:
  assumes "0.5 \<le> adaptation_factor self" "adaptation_factor self \<le> 2.0"
  shows "0.5 \<le> adaptation_factor (update_adaptation_factor self ss) \<and>
         adaptation_factor (update_adaptation_factor self ss) \<le> 2.0"
  using assms by (auto simp add: update_adaptation_factor_value min_def max_def)

lemma update_state_bounds:
  assumes "0.5 \<le> adaptation_factor self" "adaptation_factor self \<le> 2.0"
  shows "0.5 \<le> adaptation_factor (update_state self step ss w e outage scr rush) \<and>
         adaptation_factor (update_state self step ss w e outage scr rush) \<le> 2.0"
  using update_state_adaptation_factor_cases [of self step ss w e outage scr rush]
    update_adaptation_factor_bounds [OF assms, of ss] assms by auto

lemma run_updates_bounds:
  "0.5 \<le> adaptation_factor self \<Longrightarrow> adaptation_factor self \<le> 2.0 \<Longrightarrow>
   0.5 \<le> adaptation_factor (run_updates self calls) \<and>
   adaptation_factor (run_updates self calls) \<le> 2.0"
proof (induction calls arbitrary: self)
  case Nil
  then show ?case by simp
next
  case (Cons c calls)
  obtain step ss w e outage scr rush where c: "c = (step, ss, w, e, outage, scr, rush)"
    by (cases c) auto
  show ?case
    unfolding c run_updates.simps
    using Cons.IH update_state_bounds [OF Cons.prems] by blast
qed

lemmas light_example_defs =
  AdvancedTrafficLight_init_def IntersectionConfig_default_def TrafficSensor_default_def
  avg_vehicle_count_def avg_queue_length_def

subsection \<open>Emergency level and the green time\<close>

text \<open>
  C1. The specification: with an emergency level other than NONE the returned green
  duration is \<open>min_green_time\<close>, also when the sensor list is non-empty. The source assigns
  \<open>min_green_time\<close> first and then, for a non-empty sensor list, assigns the density
  value over it. With the default configuration (bounds 10 and 60), one sensor counting
  4 vehicles, clear weather and level HIGH, the method returns green 17, not 10.
\<close>

theorem calculate_optimal_timing_emergency_green_overwritten:
  "green (fst (calculate_optimal_timing
      (AdvancedTrafficLight_init ''I1'' (IntersectionConfig_default ''I1''))
      [(TrafficSensor_default ''S1'')\<lparr>vehicle_count := 4\<rparr>] CLEAR HIGH False False)) = 17
   \<and> min_green_time (config (AdvancedTrafficLight_init ''I1'' (IntersectionConfig_default ''I1''))) = 10"
  by (simp add: calculate_optimal_timing_def light_example_defs Let_def)

subsection \<open>No sensors\<close>

text \<open>
  C2 as the specification states it fails: with an empty sensor list, level NONE and RAIN the
  default configuration gives green 30, and clamping 3.0 + 4.0 into the bounds 10 and 60
  gives 10.
\<close>

theorem calculate_optimal_timing_empty_rain_counterexample:
  "green (fst (calculate_optimal_timing
      (AdvancedTrafficLight_init ''I1'' (IntersectionConfig_default ''I1''))
      [] RAIN NONE False False))
   \<noteq> max (min_green_time (IntersectionConfig_default ''I1''))
        (min (max_green_time (IntersectionConfig_default ''I1'')) (3.0 + 4.0))"
  by (simp add: calculate_optimal_timing_def light_example_defs Let_def)

text \<open>
  C2, amended. With an empty sensor list, emergency level NONE and weather RAIN the
  density block is not entered: no density and no weather bonus are computed, and the
  returned green duration is the configured default green time clamped into
  \<open>[min_green_time, max_green_time]\<close>, whatever the rush-hour and night flags.
\<close>

theorem calculate_optimal_timing_empty_rain:
  "green (fst (calculate_optimal_timing self [] RAIN NONE is_rush_hour is_night)) =
     max (min_green_time (config self))
       (min (max_green_time (config self)) (default_green_time (config self)))"
  using calculate_optimal_timing_green_empty [of self RAIN NONE is_rush_hour is_night]
  by simp

subsection \<open>Power outage\<close>

text \<open>
  C4. On a tick with the power-outage flag set, \<open>update_state\<close> sets the state to
  FLASHING_YELLOW when the tick number is even and to RED when it is odd, whatever the
  prior state, and changes no other field: \<open>state_start_time\<close>, \<open>cycle_count\<close> and
  \<open>adaptation_factor\<close> keep their values.
\<close>

theorem update_state_power_outage:
  "(current_step mod 2 = 0 \<longrightarrow>
      current_state (update_state self current_step sensor_data weather level True scramble rush)
        = FLASHING_YELLOW) \<and>
   (current_step mod 2 \<noteq> 0 \<longrightarrow>
      current_state (update_state self current_step sensor_data weather level True scramble rush)
        = RED) \<and>
   state_start_time (update_state self current_step sensor_data weather level True scramble rush)
     = state_start_time self \<and>
   cycle_count (update_state self current_step sensor_data weather level True scramble rush)
     = cycle_count self \<and>
   adaptation_factor (update_state self current_step sensor_data weather level True scramble rush)
     = adaptation_factor self \<and>
   update_state self current_step sensor_data weather level True scramble rush =
     self\<lparr>current_state :=
       current_state (update_state self current_step sensor_data weather level True scramble rush)\<rparr>"
  by (simp add: update_state_def)

theorem update_state_power_outage_witness:
  "(10::int) mod 2 = 0 \<and> (11::int) mod 2 \<noteq> 0 \<and>
   current_state (update_state
      ((AdvancedTrafficLight_init ''I1'' (IntersectionConfig_default ''I1''))\<lparr>current_state := GREEN\<rparr>)
      10 [] CLEAR HIGH True True False) = FLASHING_YELLOW \<and>
   current_state (update_state
      ((AdvancedTrafficLight_init ''I1'' (IntersectionConfig_default ''I1''))\<lparr>current_state := GREEN\<rparr>)
      11 [] CLEAR HIGH True True False) = RED"
  using
    update_state_power_outage [of 10
      "(AdvancedTrafficLight_init ''I1'' (IntersectionConfig_default ''I1''))\<lparr>current_state := GREEN\<rparr>"
      "[]" CLEAR HIGH True False]
    update_state_power_outage [of 11
      "(AdvancedTrafficLight_init ''I1'' (IntersectionConfig_default ''I1''))\<lparr>current_state := GREEN\<rparr>"
      "[]" CLEAR HIGH True False]
  by simp

subsection \<open>Adaptation factor\<close>

text \<open>
  C7. On a normal-cycle update (no outage, no scramble, emergency level NONE) with a
  non-empty sensor list the adaptation factor grows by 0.01, capped at 2.0, when the
  mean queue length exceeds 5, shrinks by 0.01, floored at 0.5, when the mean is below 2,
  and is unchanged otherwise. Starting from a new traffic light, whose factor is 1.0,
  the factor lies in \<open>[0.5, 2.0]\<close> after every sequence of updates.
\<close>

theorem adaptation_factor_update_and_bounds:
  "(sensor_data \<noteq> [] \<longrightarrow>
      adaptation_factor (update_state self current_step sensor_data weather NONE False False rush) =
        (if avg_queue_length sensor_data > 5 then min 2.0 (adaptation_factor self + 0.01)
         else if avg_queue_length sensor_data < 2 then max 0.5 (adaptation_factor self - 0.01)
         else adaptation_factor self)) \<and>
   adaptation_factor (AdvancedTrafficLight_init iid cfg) = 1.0 \<and>
   0.5 \<le> adaptation_factor (run_updates (AdvancedTrafficLight_init iid cfg) calls) \<and>
   adaptation_factor (run_updates (AdvancedTrafficLight_init iid cfg) calls) \<le> 2.0"
proof -
  have init: "0.5 \<le> adaptation_factor (AdvancedTrafficLight_init iid cfg)"
    "adaptation_factor (AdvancedTrafficLight_init iid cfg) \<le> 2.0"
    by (simp_all add: AdvancedTrafficLight_init_def)
  have one: "adaptation_factor (AdvancedTrafficLight_init iid cfg) = 1.0"
    by (simp add: AdvancedTrafficLight_init_def)
  show ?thesis
    using run_updates_bounds [OF init, of calls] one
    by (simp add: update_state_normal_adaptation_factor update_adaptation_factor_value)
qed

theorem adaptation_factor_update_and_bounds_witness:
  "[(TrafficSensor_default ''S1'')\<lparr>queue_length := 6\<rparr>] \<noteq> [] \<and>
   adaptation_factor (update_state
      (AdvancedTrafficLight_init ''I1'' (IntersectionConfig_default ''I1''))
      1 [(TrafficSensor_default ''S1'')\<lparr>queue_length := 6\<rparr>] CLEAR NONE False False False) = 1.01"
  using adaptation_factor_update_and_bounds [of
      "[(TrafficSensor_default ''S1'')\<lparr>queue_length := 6\<rparr>]"
      "AdvancedTrafficLight_init ''I1'' (IntersectionConfig_default ''I1'')"
      1 CLEAR False "''I1''" "IntersectionConfig_default ''I1''" "[]"]
  by (simp add: light_example_defs)

subsection \<open>Bounds of the green time\<close>

text \<open>
  C8. When the configured minimum green time is at most the maximum, the green duration
  returned by \<open>calculate_optimal_timing\<close> lies in \<open>[min_green_time, max_green_time]\<close>,
  for every sensor list, weather, emergency level, rush-hour flag and night flag.
\<close>

theorem calculate_optimal_timing_green_bounds:
  "min_green_time (config self) \<le> max_green_time (config self) \<Longrightarrow>
   min_green_time (config self)
     \<le> green (fst (calculate_optimal_timing self sensor_data weather level is_rush_hour is_night)) \<and>
   green (fst (calculate_optimal_timing self sensor_data weather level is_rush_hour is_night))
     \<le> max_green_time (config self)"
  by (simp add: calculate_optimal_timing_def Let_def)

theorem calculate_optimal_timing_green_bounds_witness:
  "min_green_time (config (AdvancedTrafficLight_init ''I1'' (IntersectionConfig_default ''I1'')))
     \<le> max_green_time (config (AdvancedTrafficLight_init ''I1'' (IntersectionConfig_default ''I1''))) \<and>
   10 \<le> green (fst (calculate_optimal_timing
           (AdvancedTrafficLight_init ''I1'' (IntersectionConfig_default ''I1''))
           [(TrafficSensor_default ''S1'')\<lparr>vehicle_count := 40\<rparr>] STORM NONE True False)) \<and>
   green (fst (calculate_optimal_timing
           (AdvancedTrafficLight_init ''I1'' (IntersectionConfig_default ''I1''))
           [(TrafficSensor_default ''S1'')\<lparr>vehicle_count := 40\<rparr>] STORM NONE True False)) \<le> 60"
proof -
  have h: "min_green_time (config (AdvancedTrafficLight_init ''I1'' (IntersectionConfig_default ''I1'')))
     \<le> max_green_time (config (AdvancedTrafficLight_init ''I1'' (IntersectionConfig_default ''I1'')))"
    by (simp add: light_example_defs)
  show ?thesis
    using h calculate_optimal_timing_green_bounds [OF h,
        of "[(TrafficSensor_default ''S1'')\<lparr>vehicle_count := 40\<rparr>]" STORM NONE True False]
    by (simp add: light_example_defs)
qed

section \<open>Properties of the monitor\<close>

subsection \<open>Facts shared by the proofs\<close>

lemma last_n_length: "length (last_n n xs) = min n (length xs)"
  by (simp add: last_n_def)

lemma last_n_short: "length xs \<le> n \<Longrightarrow> last_n n xs = xs"
  by (simp add: last_n_def)

lemma last_n_append_last_n: "last_n n (last_n n ys @ xs) = last_n n (ys @ xs)"
  by (cases "length ys \<le> n") (auto simp add: last_n_def add.commute)

lemma history_of_update [simp]:
  "history_of (self\<lparr>sensor_data_history := (sensor_data_history self)(k \<mapsto> h)\<rparr>) i =
     (if i = k then h else history_of self i)"
  by (simp add: history_of_def)

lemma history_of_singleton:
  "history_of (self\<lparr>sensor_data_history := [k \<mapsto> h]\<rparr>) k = h"
  by (simp add: history_of_def)

lemma history_of_ensure_key:
  "history_of (if k \<notin> dom (sensor_data_history self)
               then self\<lparr>sensor_data_history := (sensor_data_history self)(k \<mapsto> [])\<rparr>
               else self) i = history_of self i"
  by (auto simp add: history_of_def dom_def split: option.splits)

lemma anomaly_threshold_ensure_key:
  "anomaly_threshold (if k \<notin> dom (sensor_data_history self)
               then self\<lparr>sensor_data_history := (sensor_data_history self)(k \<mapsto> [])\<rparr>
               else self) = anomaly_threshold self"
  by simp

lemma detect_anomalies_history:
  "history_of (snd (detect_anomalies self sensors)) i = history_of self i"
proof (induction sensors arbitrary: self)
  case Nil
  then show ?case by simp
next
  case (Cons s sensors)
  show ?case
    by (simp add: Let_def split_def Cons.IH history_of_ensure_key) 
qed

lemma detect_anomalies_found:
  "fst (detect_anomalies self sensors) =
     concat (map (\<lambda>s. detect_one (anomaly_threshold self) (history_of self (sensor_id s)) s) sensors)"
proof (induction sensors arbitrary: self)
  case Nil
  then show ?case by simp
next
  case (Cons s sensors)
  show ?case
    by (simp add: Let_def split_def Cons.IH history_of_ensure_key anomaly_threshold_ensure_key
       )
qed

lemma update_history_history:
  "history_of (update_history self sensors) i =
     foldl (\<lambda>h s. last_n 100 (h @ [s])) (history_of self i) (filter (\<lambda>s. sensor_id s = i) sensors)"
proof (induction sensors arbitrary: self)
  case Nil
  then show ?case by simp
next
  case (Cons s sensors)
  have keep: "(if length (h @ [s]) > 100 then last_n 100 (h @ [s]) else h @ [s]) = last_n 100 (h @ [s])"
    for h :: "TrafficSensor list"
    by (simp add: last_n_def)
  show ?case
    unfolding update_history.simps Let_def keep Cons.IH
    by (simp add: history_of_ensure_key) 
qed

lemma foldl_last_n:
  "foldl (\<lambda>h s. last_n n (h @ [s])) h xs = (if xs = [] then h else last_n n (h @ xs))"
proof (induction xs arbitrary: h)
  case Nil
  then show ?case by simp
next
  case (Cons x xs)
  show ?case
    using last_n_append_last_n [of n "h @ [x]" xs] by (simp add: Cons.IH)
qed

lemma process_sensor_data_history:
  "history_of (snd (process_sensor_data self sensors)) i =
     (if filter (\<lambda>s. sensor_id s = i) sensors = [] then history_of self i
      else last_n 100 (history_of self i @ filter (\<lambda>s. sensor_id s = i) sensors))"
  by (simp add: process_sensor_data_def Let_def split_def update_history_history foldl_last_n
      detect_anomalies_history)

lemma process_sensor_data_anomalies:
  "sensors \<noteq> [] \<Longrightarrow> anomalies (fst (process_sensor_data self sensors)) =
     concat (map (\<lambda>s. detect_one (anomaly_threshold self) (history_of self (sensor_id s)) s) sensors)"
  by (simp add: process_sensor_data_def Let_def split_def detect_anomalies_found)

lemma run_monitor_history:
  "history_of (run_monitor self batches) i =
     (if filter (\<lambda>s. sensor_id s = i) (concat batches) = [] then history_of self i
      else last_n 100 (history_of self i @ filter (\<lambda>s. sensor_id s = i) (concat batches)))"
proof (induction batches arbitrary: self)
  case Nil
  then show ?case by simp
next
  case (Cons b batches)
  show ?case
    using last_n_append_last_n [of 100 "history_of self i @ filter (\<lambda>s. sensor_id s = i) b"
        "filter (\<lambda>s. sensor_id s = i) (concat batches)"]
    by (simp add: Cons.IH process_sensor_data_history)
qed

lemma filter_concat_length:
  "\<forall>b\<in>set batches. i \<in> sensor_id ` set b \<Longrightarrow>
   length batches \<le> length (filter (\<lambda>s. sensor_id s = i) (concat batches))"
proof (induction batches)
  case Nil
  then show ?case by simp
next
  case (Cons b batches)
  then have "filter (\<lambda>s. sensor_id s = i) b \<noteq> []"
    by (auto simp add: filter_empty_conv)
  then have "1 \<le> length (filter (\<lambda>s. sensor_id s = i) b)"
    by (cases "filter (\<lambda>s. sensor_id s = i) b") auto
  with Cons show ?case by simp
qed


lemma detect_one_member:
  "a \<in> set (detect_one t h s) \<Longrightarrow>
     anomaly_sensor_id a = sensor_id s \<and> anomaly_value a = vehicle_count s \<and> 5 \<le> length h \<and>
     0 < statistics_stdev (map vehicle_count (last_n 10 h)) \<and>
     t < \<bar>real_of_int (vehicle_count s) - statistics_mean (map vehicle_count (last_n 10 h))\<bar>
           / statistics_stdev (map vehicle_count (last_n 10 h))"
  by (auto simp add: detect_one_def Let_def split: if_splits)

lemma detect_one_flagged:
  assumes "5 \<le> length h" "0 < statistics_stdev (map vehicle_count (last_n 10 h))"
    "t < \<bar>real_of_int (vehicle_count s) - statistics_mean (map vehicle_count (last_n 10 h))\<bar>
           / statistics_stdev (map vehicle_count (last_n 10 h))"
  shows "\<exists>a\<in>set (detect_one t h s).
           anomaly_sensor_id a = sensor_id s \<and> anomaly_value a = vehicle_count s"
proof -
  have "length (last_n 10 h) = min 10 (length h)" by (rule last_n_length)
  with assms(1) have "1 < length (last_n 10 h)" by simp
  then have "last_n 10 h \<noteq> []" "1 < length (map vehicle_count (last_n 10 h))" by auto
  with assms show ?thesis
    by (simp add: detect_one_def Let_def)
qed

lemma statistics_stdev_replicate: "statistics_stdev (replicate n c) = 0"
proof (cases n)
  case 0
  then show ?thesis by (simp add: statistics_stdev_def)
next
  case (Suc k)
  then have "real n \<noteq> 0" by simp
  then have m: "statistics_mean (replicate n c) = real_of_int c"
    by (simp add: statistics_mean_def sum_list_replicate)
  have "map (\<lambda>x. (real_of_int x - real_of_int c)\<^sup>2) (replicate n c) = replicate n 0"
    by simp
  then show ?thesis
    by (simp add: statistics_stdev_def m sum_list_replicate)
qed

lemma detect_one_constant_history:
  assumes "map vehicle_count h = replicate (length h) c" "length h \<le> 10"
  shows "detect_one t h s = []"
proof -
  have "map vehicle_count (last_n 10 h) = replicate (length h) c"
    using assms by (simp add: last_n_short)
  then show ?thesis
    by (simp add: detect_one_def Let_def statistics_stdev_replicate)
qed

subsection \<open>Anomaly detection\<close>

text \<open>
  C3 as the specification states it fails in its example: a sensor with 9 stored counts of 5
  and a current reading of 20 is not flagged. The nine stored counts have deviation zero,
  and the source skips a sensor whose deviation is not positive.
\<close>

theorem anomaly_nine_fives_counterexample:
  "anomalies (fst (process_sensor_data
      (TrafficMonitoringSystem_init\<lparr>sensor_data_history :=
          [''S1'' \<mapsto> replicate 9 ((TrafficSensor_default ''S1'')\<lparr>vehicle_count := 5\<rparr>)]\<rparr>)
      [(TrafficSensor_default ''S1'')\<lparr>vehicle_count := 20\<rparr>])) = []"
proof -
  let ?m = "TrafficMonitoringSystem_init\<lparr>sensor_data_history :=
          [''S1'' \<mapsto> replicate 9 ((TrafficSensor_default ''S1'')\<lparr>vehicle_count := 5\<rparr>)]\<rparr>"
  let ?h = "replicate 9 ((TrafficSensor_default ''S1'')\<lparr>vehicle_count := 5\<rparr>)"
  have h: "history_of ?m ''S1'' = ?h"
    by (simp add: history_of_def)
  have "map vehicle_count ?h = replicate (length ?h) 5" "length ?h \<le> 10"
    by simp_all
  then have d: "detect_one t ?h s = []" for t s
    by (rule detect_one_constant_history)
  have sid: "sensor_id ((TrafficSensor_default ''S1'')\<lparr>vehicle_count := 20\<rparr>) = ''S1''"
    by (simp add: TrafficSensor_default_def)
  show ?thesis
    by (simp add: process_sensor_data_anomalies sid history_of_singleton d)
qed

text \<open>
  C3, amended. The monitor's threshold is 2.0. For every sensor of the list passed to
  \<open>process_sensor_data\<close>: when at least 5 prior history entries exist and the sample
  standard deviation of the last 10 stored vehicle counts is positive, an anomaly record
  for the sensor (its id, its count) is emitted exactly when
  \<open>|current count - mean| / deviation\<close> exceeds 2.0; a sensor with fewer than 5 history
  entries is never flagged; a sensor with 9 prior counts of 5 and a current reading of 20
  is not flagged, because the deviation of its stored counts is zero; and the detection
  reads the history of before the call, to which the call then appends the current
  readings (keeping the last 100).
\<close>

theorem anomaly_detection:
  assumes "anomaly_threshold self = 2.0" and "sensor \<in> set sensors"
  shows
   "(5 \<le> length (history_of self (sensor_id sensor)) \<and>
     0 < statistics_stdev (map vehicle_count (last_n 10 (history_of self (sensor_id sensor)))) \<longrightarrow>
       ((\<exists>a\<in>set (anomalies (fst (process_sensor_data self sensors))).
            anomaly_sensor_id a = sensor_id sensor \<and> anomaly_value a = vehicle_count sensor) \<longleftrightarrow>
        \<bar>real_of_int (vehicle_count sensor)
           - statistics_mean (map vehicle_count (last_n 10 (history_of self (sensor_id sensor))))\<bar>
          / statistics_stdev (map vehicle_count (last_n 10 (history_of self (sensor_id sensor))))
          > 2.0)) \<and>
    (length (history_of self (sensor_id sensor)) < 5 \<longrightarrow>
       (\<forall>a\<in>set (anomalies (fst (process_sensor_data self sensors))).
            anomaly_sensor_id a \<noteq> sensor_id sensor)) \<and>
    (map vehicle_count (history_of self (sensor_id sensor)) = replicate 9 5 \<and>
     vehicle_count sensor = 20 \<longrightarrow>
       (\<forall>a\<in>set (anomalies (fst (process_sensor_data self sensors))).
            anomaly_sensor_id a \<noteq> sensor_id sensor)) \<and>
    history_of (snd (process_sensor_data self sensors)) (sensor_id sensor) =
      last_n 100 (history_of self (sensor_id sensor)
                  @ filter (\<lambda>s. sensor_id s = sensor_id sensor) sensors)"
proof -
  let ?h = "history_of self (sensor_id sensor)"
  let ?out = "anomalies (fst (process_sensor_data self sensors))"
  from assms(2) have ne: "sensors \<noteq> []" by auto
  have out: "?out = concat (map (\<lambda>s. detect_one 2 (history_of self (sensor_id s)) s) sensors)"
    using process_sensor_data_anomalies [OF ne, of self] assms(1) by simp
  have from_out: "5 \<le> length ?h \<and>
      0 < statistics_stdev (map vehicle_count (last_n 10 ?h)) \<and>
      2 < \<bar>real_of_int (anomaly_value a) - statistics_mean (map vehicle_count (last_n 10 ?h))\<bar>
            / statistics_stdev (map vehicle_count (last_n 10 ?h))"
    if "a \<in> set ?out" "anomaly_sensor_id a = sensor_id sensor" for a
  proof -
    from that(1) obtain s where s: "s \<in> set sensors"
      "a \<in> set (detect_one 2 (history_of self (sensor_id s)) s)"
      unfolding out by auto
    from detect_one_member [OF s(2)] that(2) show ?thesis by simp
  qed
  have to_out: "\<exists>a\<in>set ?out. anomaly_sensor_id a = sensor_id sensor \<and> anomaly_value a = vehicle_count sensor"
    if "5 \<le> length ?h" "0 < statistics_stdev (map vehicle_count (last_n 10 ?h))"
      "2 < \<bar>real_of_int (vehicle_count sensor) - statistics_mean (map vehicle_count (last_n 10 ?h))\<bar>
            / statistics_stdev (map vehicle_count (last_n 10 ?h))"
    using detect_one_flagged [OF that] assms(2) unfolding out by auto
  have c1: "5 \<le> length ?h \<and> 0 < statistics_stdev (map vehicle_count (last_n 10 ?h)) \<longrightarrow>
       ((\<exists>a\<in>set ?out. anomaly_sensor_id a = sensor_id sensor \<and> anomaly_value a = vehicle_count sensor) \<longleftrightarrow>
        \<bar>real_of_int (vehicle_count sensor) - statistics_mean (map vehicle_count (last_n 10 ?h))\<bar>
          / statistics_stdev (map vehicle_count (last_n 10 ?h)) > 2.0)"
    using from_out to_out by fastforce
  have c2: "length ?h < 5 \<longrightarrow> (\<forall>a\<in>set ?out. anomaly_sensor_id a \<noteq> sensor_id sensor)"
    using from_out by fastforce
  have c3: "map vehicle_count ?h = replicate 9 5 \<and> vehicle_count sensor = 20 \<longrightarrow>
       (\<forall>a\<in>set ?out. anomaly_sensor_id a \<noteq> sensor_id sensor)"
  proof (intro impI ballI notI)
    fix a
    assume h: "map vehicle_count ?h = replicate 9 5 \<and> vehicle_count sensor = 20"
      and a: "a \<in> set ?out" "anomaly_sensor_id a = sensor_id sensor"
    from h have "length (map vehicle_count ?h) = 9" by simp
    then have len: "length ?h = 9" by simp
    with h have "map vehicle_count (last_n 10 ?h) = replicate 9 5"
      by (simp add: last_n_short)
    then have "statistics_stdev (map vehicle_count (last_n 10 ?h)) = 0"
      by (simp add: statistics_stdev_replicate)
    with from_out [OF a] show False by simp
  qed
  have "filter (\<lambda>s. sensor_id s = sensor_id sensor) sensors \<noteq> []"
    using assms(2) by (auto simp add: filter_empty_conv)
  then have c4: "history_of (snd (process_sensor_data self sensors)) (sensor_id sensor) =
      last_n 100 (?h @ filter (\<lambda>s. sensor_id s = sensor_id sensor) sensors)"
    by (simp add: process_sensor_data_history)
  from c1 c2 c3 c4 show ?thesis by blast
qed

theorem anomaly_detection_witness:
  "anomaly_threshold (TrafficMonitoringSystem_init\<lparr>sensor_data_history :=
       [''S1'' \<mapsto> map (\<lambda>c. (TrafficSensor_default ''S1'')\<lparr>vehicle_count := c\<rparr>) [1, 1, 3, 3, 2]]\<rparr>) = 2.0 \<and>
   5 \<le> length (history_of (TrafficMonitoringSystem_init\<lparr>sensor_data_history :=
       [''S1'' \<mapsto> map (\<lambda>c. (TrafficSensor_default ''S1'')\<lparr>vehicle_count := c\<rparr>) [1, 1, 3, 3, 2]]\<rparr>) ''S1'') \<and>
   0 < statistics_stdev [1, 1, 3, 3, 2] \<and>
   (\<exists>a\<in>set (anomalies (fst (process_sensor_data
        (TrafficMonitoringSystem_init\<lparr>sensor_data_history :=
           [''S1'' \<mapsto> map (\<lambda>c. (TrafficSensor_default ''S1'')\<lparr>vehicle_count := c\<rparr>) [1, 1, 3, 3, 2]]\<rparr>)
        [(TrafficSensor_default ''S1'')\<lparr>vehicle_count := 5\<rparr>]))).
      anomaly_sensor_id a = ''S1'' \<and> anomaly_value a = 5)"
proof -
  let ?m = "TrafficMonitoringSystem_init\<lparr>sensor_data_history :=
       [''S1'' \<mapsto> map (\<lambda>c. (TrafficSensor_default ''S1'')\<lparr>vehicle_count := c\<rparr>) [1, 1, 3, 3, 2]]\<rparr>"
  let ?s = "(TrafficSensor_default ''S1'')\<lparr>vehicle_count := 5\<rparr>"
  have sid: "sensor_id ?s = ''S1''" and vc: "vehicle_count ?s = 5"
    by (simp_all add: TrafficSensor_default_def)
  have t: "anomaly_threshold ?m = 2.0"
    by (simp add: TrafficMonitoringSystem_init_def)
  have t0: "anomaly_threshold TrafficMonitoringSystem_init = 2"
    by (simp add: TrafficMonitoringSystem_init_def)
  have mem: "?s \<in> set [?s]" by simp
  have h: "history_of ?m ''S1'' =
      map (\<lambda>c. (TrafficSensor_default ''S1'')\<lparr>vehicle_count := c\<rparr>) [1, 1, 3, 3, 2]"
    by (simp add: history_of_def)
  have cs: "map vehicle_count (last_n 10 (history_of ?m ''S1'')) = [1, 1, 3, 3, 2]"
    by (simp add: history_of_singleton last_n_def)
  have mean: "statistics_mean [1, 1, 3, 3, 2] = 2"
    by (simp add: statistics_mean_def)
  have sd: "statistics_stdev [1, 1, 3, 3, 2] = 1"
    by (simp add: statistics_stdev_def mean)
  show ?thesis
    using anomaly_detection [OF t mem] 
    by (simp add: sid vc mean sd history_of_singleton last_n_def t0)
qed

subsection \<open>History cap\<close>

text \<open>
  C9. After every sequence of calls of \<open>process_sensor_data\<close> on a new monitor the
  stored history of each sensor id has at most 100 entries, and a call keeps the bound.
  A call leaves, for a sensor id of its list, the last 100 entries of the old history
  followed by the new readings: the oldest entries are evicted first. After 150 calls
  that each contain the sensor, its history has exactly 100 entries.
\<close>

theorem history_capped_fifo:
  "length (history_of (run_monitor TrafficMonitoringSystem_init batches) i) \<le> 100 \<and>
   ((\<forall>j. length (history_of self j) \<le> 100) \<longrightarrow>
      length (history_of (snd (process_sensor_data self sensors)) i) \<le> 100) \<and>
   (i \<in> sensor_id ` set sensors \<longrightarrow>
      history_of (snd (process_sensor_data self sensors)) i =
        last_n 100 (history_of self i @ filter (\<lambda>s. sensor_id s = i) sensors)) \<and>
   (i \<notin> sensor_id ` set sensors \<longrightarrow>
      history_of (snd (process_sensor_data self sensors)) i = history_of self i) \<and>
   (length batches = 150 \<and> (\<forall>b\<in>set batches. i \<in> sensor_id ` set b) \<longrightarrow>
      length (history_of (run_monitor TrafficMonitoringSystem_init batches) i) = 100)"
proof -
  let ?F = "filter (\<lambda>s. sensor_id s = i)"
  have init: "history_of TrafficMonitoringSystem_init i = []"
    by (simp add: history_of_def TrafficMonitoringSystem_init_def)
  have run: "length (history_of (run_monitor TrafficMonitoringSystem_init batches) i)
      = min 100 (length (?F (concat batches)))"
    by (simp add: run_monitor_history init last_n_length)
  have c1: "length (history_of (run_monitor TrafficMonitoringSystem_init batches) i) \<le> 100"
    unfolding run by simp
  have c2: "(\<forall>j. length (history_of self j) \<le> 100) \<longrightarrow>
      length (history_of (snd (process_sensor_data self sensors)) i) \<le> 100"
    by (simp add: process_sensor_data_history last_n_length)
  have mem: "?F sensors \<noteq> [] \<longleftrightarrow> i \<in> sensor_id ` set sensors"
    by (auto simp add: filter_empty_conv)
  have c3: "i \<in> sensor_id ` set sensors \<longrightarrow>
      history_of (snd (process_sensor_data self sensors)) i =
        last_n 100 (history_of self i @ ?F sensors)"
  proof
    assume "i \<in> sensor_id ` set sensors"
    with mem have "?F sensors \<noteq> []" by simp
    then show "history_of (snd (process_sensor_data self sensors)) i =
        last_n 100 (history_of self i @ ?F sensors)"
      by (simp add: process_sensor_data_history)
  qed
  have c4: "i \<notin> sensor_id ` set sensors \<longrightarrow>
      history_of (snd (process_sensor_data self sensors)) i = history_of self i"
  proof
    assume "i \<notin> sensor_id ` set sensors"
    with mem have "?F sensors = []" by simp
    then show "history_of (snd (process_sensor_data self sensors)) i = history_of self i"
      by (simp add: process_sensor_data_history)
  qed
  have c5: "length batches = 150 \<and> (\<forall>b\<in>set batches. i \<in> sensor_id ` set b) \<longrightarrow>
      length (history_of (run_monitor TrafficMonitoringSystem_init batches) i) = 100"
  proof
    assume h: "length batches = 150 \<and> (\<forall>b\<in>set batches. i \<in> sensor_id ` set b)"
    then have "length batches \<le> length (?F (concat batches))"
      using filter_concat_length [of batches i] by simp
    with h show "length (history_of (run_monitor TrafficMonitoringSystem_init batches) i) = 100"
      unfolding run by simp
  qed
  from c1 c2 c3 c4 c5 show ?thesis by blast
qed

theorem history_capped_fifo_witness:
  "length (replicate 150 [TrafficSensor_default ''S1'']) = 150 \<and>
   length (history_of (run_monitor TrafficMonitoringSystem_init
             (replicate 150 [TrafficSensor_default ''S1''])) ''S1'') = 100 \<and>
   ''S1'' \<in> sensor_id ` set [TrafficSensor_default ''S1''] \<and>
   history_of (snd (process_sensor_data TrafficMonitoringSystem_init [TrafficSensor_default ''S1'']))
     ''S1'' = [TrafficSensor_default ''S1'']"
proof -
  have sid: "sensor_id (TrafficSensor_default ''S1'') = ''S1''"
    by (simp add: TrafficSensor_default_def)
  have init: "history_of TrafficMonitoringSystem_init j = []" for j
    by (simp add: history_of_def TrafficMonitoringSystem_init_def)
  show ?thesis
    using history_capped_fifo [of "replicate 150 [TrafficSensor_default ''S1'']" "''S1''"
        TrafficMonitoringSystem_init "[TrafficSensor_default ''S1'']"]
    by (simp add: sid init last_n_def)
qed

subsection \<open>Analytics without an active sensor\<close>

text \<open>
  C10. When the sensor list is non-empty and none of its sensors is active, the returned
  analytics have \<open>total_vehicles = 0\<close>, \<open>average_speed = 0.0\<close> and
  \<open>congestion_level = 0.0\<close>, whatever the vehicle counts of the sensors. When some
  sensor is active, \<open>total_vehicles\<close> is the sum of the counts of all sensors of the
  list, the inactive ones included.
\<close>

theorem inactive_sensors_zero_analytics:
  "(sensors \<noteq> [] \<and> (\<forall>s\<in>set sensors. \<not> is_active s) \<longrightarrow>
      total_vehicles (fst (process_sensor_data self sensors)) = 0 \<and>
      pd_average_speed (fst (process_sensor_data self sensors)) = 0.0 \<and>
      congestion_level (fst (process_sensor_data self sensors)) = 0.0) \<and>
   ((\<exists>s\<in>set sensors. is_active s) \<longrightarrow>
      total_vehicles (fst (process_sensor_data self sensors))
        = sum_list (map vehicle_count sensors))"
proof -
  have none: "total_vehicles (fst (process_sensor_data self sensors)) = 0 \<and>
      pd_average_speed (fst (process_sensor_data self sensors)) = 0.0 \<and>
      congestion_level (fst (process_sensor_data self sensors)) = 0.0"
    if "sensors \<noteq> []" "\<forall>s\<in>set sensors. \<not> is_active s"
  proof -
    from that(2) have "filter is_active sensors = []"
      by (simp add: filter_empty_conv)
    with that(1) show ?thesis
      by (simp add: process_sensor_data_def Let_def split_def)
  qed
  have some: "total_vehicles (fst (process_sensor_data self sensors))
      = sum_list (map vehicle_count sensors)"
    if "\<exists>s\<in>set sensors. is_active s"
  proof -
    from that have "filter is_active sensors \<noteq> []" "sensors \<noteq> []"
      by (auto simp add: filter_empty_conv)
    then show ?thesis
      by (simp add: process_sensor_data_def Let_def split_def)
  qed
  from none some show ?thesis by blast
qed

theorem inactive_sensors_zero_analytics_witness:
  "[(TrafficSensor_default ''S1'')\<lparr>vehicle_count := 7, is_active := False\<rparr>] \<noteq> [] \<and>
   \<not> is_active ((TrafficSensor_default ''S1'')\<lparr>vehicle_count := 7, is_active := False\<rparr>) \<and>
   vehicle_count ((TrafficSensor_default ''S1'')\<lparr>vehicle_count := 7, is_active := False\<rparr>) = 7 \<and>
   total_vehicles (fst (process_sensor_data TrafficMonitoringSystem_init
      [(TrafficSensor_default ''S1'')\<lparr>vehicle_count := 7, is_active := False\<rparr>])) = 0 \<and>
   pd_average_speed (fst (process_sensor_data TrafficMonitoringSystem_init
      [(TrafficSensor_default ''S1'')\<lparr>vehicle_count := 7, is_active := False\<rparr>])) = 0 \<and>
   congestion_level (fst (process_sensor_data TrafficMonitoringSystem_init
      [(TrafficSensor_default ''S1'')\<lparr>vehicle_count := 7, is_active := False\<rparr>])) = 0 \<and>
   is_active ((TrafficSensor_default ''S2'')\<lparr>vehicle_count := 3\<rparr>) \<and>
   total_vehicles (fst (process_sensor_data TrafficMonitoringSystem_init
      [(TrafficSensor_default ''S1'')\<lparr>vehicle_count := 7, is_active := False\<rparr>,
       (TrafficSensor_default ''S2'')\<lparr>vehicle_count := 3\<rparr>])) = 10"
proof -
  have act: "is_active ((TrafficSensor_default ''S2'')\<lparr>vehicle_count := 3\<rparr>)"
    by (simp add: TrafficSensor_default_def)
  show ?thesis
    using
      inactive_sensors_zero_analytics [of
        "[(TrafficSensor_default ''S1'')\<lparr>vehicle_count := 7, is_active := False\<rparr>]"
        TrafficMonitoringSystem_init]
      inactive_sensors_zero_analytics [of
        "[(TrafficSensor_default ''S1'')\<lparr>vehicle_count := 7, is_active := False\<rparr>,
          (TrafficSensor_default ''S2'')\<lparr>vehicle_count := 3\<rparr>]"
        TrafficMonitoringSystem_init]
    by (simp add: act)
qed

section \<open>Properties of the emergency registry\<close>

subsection \<open>Facts shared by the proofs\<close>

lemma dict_get_priority_map: "dict_get priority_map l 0 = spec_base l"
  by (cases l) (simp_all add: dict_get_def priority_map_def)

lemma dict_get_weather_init:
  "dict_get (weather_impact_factors EmergencyManagementSystem_init) w 1 = spec_weatherFactor w"
  by (cases w) (simp_all add: dict_get_def EmergencyManagementSystem_init_def)

subsection \<open>Priority score\<close>

text \<open>
  C5. With the weather factors of a new registry, \<open>calculate_priority\<close> returns
  \<open>int((base(level) + (5 if the type is EMERGENCY else 0)) * weatherFactor(weather))\<close>
  with the tables of the specification; an EMERGENCY vehicle of level HIGH under STORM
  scores 30.
\<close>

theorem calculate_priority_formula:
  "weather_impact_factors self = weather_impact_factors EmergencyManagementSystem_init \<Longrightarrow>
   calculate_priority self vehicle weather = spec_priority vehicle weather \<and>
   (vehicle_type vehicle = EMERGENCY \<and> emergency_level vehicle = HIGH \<longrightarrow>
      calculate_priority self vehicle STORM = 30)"
proof -
  assume t: "weather_impact_factors self = weather_impact_factors EmergencyManagementSystem_init"
  have eq: "calculate_priority self v w = spec_priority v w" for v w
    by (simp add: calculate_priority_def spec_priority_def Let_def t
        dict_get_priority_map dict_get_weather_init)
  have "spec_priority v STORM = 30" if "vehicle_type v = EMERGENCY" "emergency_level v = HIGH" for v
    using that by (simp add: spec_priority_def py_int_def)
  with eq show ?thesis by simp
qed

theorem calculate_priority_formula_witness:
  "weather_impact_factors EmergencyManagementSystem_init
     = weather_impact_factors EmergencyManagementSystem_init \<and>
   vehicle_type ((Vehicle_default ''V1'')\<lparr>vehicle_type := EMERGENCY, emergency_level := HIGH\<rparr>)
     = EMERGENCY \<and>
   calculate_priority EmergencyManagementSystem_init
     ((Vehicle_default ''V1'')\<lparr>vehicle_type := EMERGENCY, emergency_level := HIGH\<rparr>) STORM = 30"
  using calculate_priority_formula [OF refl,
      of "(Vehicle_default ''V1'')\<lparr>vehicle_type := EMERGENCY, emergency_level := HIGH\<rparr>" STORM]
  by simp

subsection \<open>Registration\<close>

text \<open>
  C6. Registering a vehicle of level NONE returns False and leaves the registry as it is;
  unregistering an id that is not registered returns False and leaves the registry as it
  is; a successful registration returns True and stores the vehicle under its id; and
  registering the same id twice leaves one entry for the id, the second vehicle, in a
  registry whose keys stay distinct.
\<close>

theorem register_unregister:
  "(emergency_level vehicle = NONE \<longrightarrow> register_emergency_vehicle self vehicle = (False, self)) \<and>
   (vid \<notin> fst ` set (active_emergencies self) \<longrightarrow>
      unregister_emergency_vehicle self vid = (False, self)) \<and>
   (emergency_level vehicle \<noteq> NONE \<longrightarrow>
      fst (register_emergency_vehicle self vehicle) \<and>
      map_of (active_emergencies (snd (register_emergency_vehicle self vehicle))) (vehicle_id vehicle)
        = Some vehicle) \<and>
   (emergency_level vehicle \<noteq> NONE \<and> emergency_level vehicle' \<noteq> NONE \<and>
    vehicle_id vehicle' = vehicle_id vehicle \<and> distinct (map fst (active_emergencies self)) \<longrightarrow>
      (let twice = snd (register_emergency_vehicle (snd (register_emergency_vehicle self vehicle)) vehicle')
       in distinct (map fst (active_emergencies twice)) \<and>
          length (filter (\<lambda>p. fst p = vehicle_id vehicle) (active_emergencies twice)) = 1 \<and>
          map_of (active_emergencies twice) (vehicle_id vehicle) = Some vehicle' \<and>
          length (active_emergencies twice)
            = length (active_emergencies (snd (register_emergency_vehicle self vehicle)))))"
proof -
  have d: "distinct (map fst (AList.update k v al))" if "distinct (map fst al)"
    for k :: string and v :: Vehicle and al
    using that by (rule distinct_update)
  have one: "length (filter (\<lambda>p. fst p = k) al) = 1" if "distinct (map fst al)" "k \<in> fst ` set al"
    for k :: string and al :: "(string \<times> Vehicle) list"
    using that by (induction al) (auto simp add: filter_empty_conv image_iff)
  have len: "length (AList.update k v' al) = length (AList.update k v al)"
    for k :: string and v v' :: Vehicle and al
    by (induction al) auto
  show ?thesis
    by (auto simp add: register_emergency_vehicle_def unregister_emergency_vehicle_def Let_def
        update_conv' d one len dom_update)
qed

theorem register_unregister_witness:
  "emergency_level (Vehicle_default ''V1'') = NONE \<and>
   register_emergency_vehicle EmergencyManagementSystem_init (Vehicle_default ''V1'')
     = (False, EmergencyManagementSystem_init) \<and>
   ''V9'' \<notin> fst ` set (active_emergencies EmergencyManagementSystem_init) \<and>
   unregister_emergency_vehicle EmergencyManagementSystem_init ''V9''
     = (False, EmergencyManagementSystem_init) \<and>
   emergency_level ((Vehicle_default ''V1'')\<lparr>emergency_level := HIGH\<rparr>) \<noteq> NONE \<and>
   emergency_level ((Vehicle_default ''V1'')\<lparr>emergency_level := LOW\<rparr>) \<noteq> NONE \<and>
   distinct (map fst (active_emergencies EmergencyManagementSystem_init)) \<and>
   fst (register_emergency_vehicle EmergencyManagementSystem_init
          ((Vehicle_default ''V1'')\<lparr>emergency_level := HIGH\<rparr>)) \<and>
   length (active_emergencies (snd (register_emergency_vehicle
      (snd (register_emergency_vehicle EmergencyManagementSystem_init
              ((Vehicle_default ''V1'')\<lparr>emergency_level := HIGH\<rparr>)))
      ((Vehicle_default ''V1'')\<lparr>emergency_level := LOW\<rparr>)))) = 1"
proof -
  have a: "emergency_level (Vehicle_default ''V1'') = NONE"
    and b: "emergency_level ((Vehicle_default ''V1'')\<lparr>emergency_level := HIGH\<rparr>) \<noteq> NONE"
    and c: "emergency_level ((Vehicle_default ''V1'')\<lparr>emergency_level := LOW\<rparr>) \<noteq> NONE"
    and d: "vehicle_id ((Vehicle_default ''V1'')\<lparr>emergency_level := LOW\<rparr>)
              = vehicle_id ((Vehicle_default ''V1'')\<lparr>emergency_level := HIGH\<rparr>)"
    by (simp_all add: Vehicle_default_def)
  have e: "active_emergencies EmergencyManagementSystem_init = []"
    by (simp add: EmergencyManagementSystem_init_def)
  have f: "active_emergencies (snd (register_emergency_vehicle EmergencyManagementSystem_init
              ((Vehicle_default ''V1'')\<lparr>emergency_level := HIGH\<rparr>))) =
           [(''V1'', (Vehicle_default ''V1'')\<lparr>emergency_level := HIGH\<rparr>)]"
    by (simp add: register_emergency_vehicle_def EmergencyManagementSystem_init_def Vehicle_default_def)
  show ?thesis
    using
      register_unregister [of "Vehicle_default ''V1''" EmergencyManagementSystem_init "''V9''"
        "Vehicle_default ''V1''"]
      register_unregister [of "(Vehicle_default ''V1'')\<lparr>emergency_level := HIGH\<rparr>"
        EmergencyManagementSystem_init "''V9''" "(Vehicle_default ''V1'')\<lparr>emergency_level := LOW\<rparr>"]
    by (simp add: a b c d e f Let_def)
qed

end
